theory Spec2Isabelle
  imports Complex_Main
begin

section \<open>Rental property tax model: the calculation engine\<close>

text \<open>
  The engine is a set of pure TypeScript functions over \<open>number\<close>. Every \<open>number\<close>
  argument (amounts, rates, weeks, the loan term in years) is modelled as an exact real
  (\<^typ>\<open>real\<close>): the model computes what the source's expressions denote, and the rounding
  of IEEE doubles is outside it. Only the month counter of the amortization loop and the
  milestone years, which the source takes from integer literals, are \<^typ>\<open>int\<close>.
\<close>

subsection \<open>Constants (constants.ts)\<close>

definition CAPITAL_WORKS_RATE :: real where
  "CAPITAL_WORKS_RATE = 0.025"

definition WEEKS_PER_YEAR :: real where
  "WEEKS_PER_YEAR = 52"

subsection \<open>Result and input records (types)\<close>

record RentalIncomeInputs =
  weeklyRent :: real
  vacancyWeeksPerYear :: real

record OperatingExpensesInputs =
  propertyManagement :: real
  councilRates :: real
  waterRates :: real
  insurance :: real
  repairsMaintenance :: real
  bodyCorporate :: real
  otherExpenses :: real
  otherExpensesDescription :: string

record DepreciationInputs =
  constructionValue :: real
  plantEquipmentAnnual :: real

record CashflowResults =
  grossRentalIncome :: real
  totalOperatingExpenses :: real
  interestExpense :: real
  netCashflowPreTax :: real

record DepreciationResults =
  capitalWorksDeduction :: real
  plantEquipmentDeduction :: real
  totalDepreciation :: real

record RentalPLResults =
  netCashflowPreTax :: real
  totalDepreciation :: real
  netRentalResult :: real
  isNegativelyGeared :: bool

record TaxScenarioResults =
  taxableIncome :: real
  incomeTax :: real
  medicareLevy :: real
  totalTax :: real

record TaxImpactResults =
  withoutProperty :: TaxScenarioResults
  withProperty :: TaxScenarioResults
  taxBenefit :: real
  afterTaxCashflow :: real

subsection \<open>Tax calculations (tax-calculations.ts)\<close>

definition calculateIncomeTax :: "real \<Rightarrow> real \<Rightarrow> real" where
  "calculateIncomeTax taxableIncome' marginalTaxRate =
     (let effectiveIncome = max 0 taxableIncome'
      in effectiveIncome * marginalTaxRate)"

definition calculateMedicareLevy :: "real \<Rightarrow> real \<Rightarrow> real" where
  "calculateMedicareLevy taxableIncome' medicareLevyRate =
     (let effectiveIncome = max 0 taxableIncome'
      in effectiveIncome * medicareLevyRate)"

definition calculateTotalTax :: "real \<Rightarrow> real \<Rightarrow> real" where
  "calculateTotalTax incomeTax' medicareLevy' = incomeTax' + medicareLevy'"

definition calculateNetRentalResult :: "real \<Rightarrow> real \<Rightarrow> real" where
  "calculateNetRentalResult netCashflowPreTax' totalDepreciation' =
     netCashflowPreTax' - totalDepreciation'"

definition calculateTaxBenefit :: "real \<Rightarrow> real \<Rightarrow> real" where
  "calculateTaxBenefit taxWithoutProperty taxWithProperty =
     taxWithoutProperty - taxWithProperty"

definition calculateTaxScenario :: "real \<Rightarrow> real \<Rightarrow> real \<Rightarrow> TaxScenarioResults" where
  "calculateTaxScenario taxableIncome' marginalTaxRate medicareLevyRate =
     (let incomeTax' = calculateIncomeTax taxableIncome' marginalTaxRate;
          medicareLevy' = calculateMedicareLevy taxableIncome' medicareLevyRate;
          totalTax' = calculateTotalTax incomeTax' medicareLevy'
      in \<lparr>taxableIncome = taxableIncome',
          incomeTax = incomeTax',
          medicareLevy = medicareLevy',
          totalTax = totalTax'\<rparr>)"

definition calculateRentalPLResults ::
  "CashflowResults \<Rightarrow> DepreciationResults \<Rightarrow> RentalPLResults" where
  "calculateRentalPLResults cashflow depreciation =
     (let netRentalResult' = calculateNetRentalResult
            (CashflowResults.netCashflowPreTax cashflow)
            (DepreciationResults.totalDepreciation depreciation)
      in \<lparr>RentalPLResults.netCashflowPreTax = CashflowResults.netCashflowPreTax cashflow,
          RentalPLResults.totalDepreciation = DepreciationResults.totalDepreciation depreciation,
          netRentalResult = netRentalResult',
          isNegativelyGeared = (netRentalResult' < 0)\<rparr>)"

definition calculateTaxImpactResults ::
  "real \<Rightarrow> real \<Rightarrow> real \<Rightarrow> real \<Rightarrow> real \<Rightarrow> TaxImpactResults" where
  "calculateTaxImpactResults baseTaxableIncome netRentalResult' netCashflowPreTax'
       marginalTaxRate medicareLevyRate =
     (let withoutProperty' =
            calculateTaxScenario baseTaxableIncome marginalTaxRate medicareLevyRate;
          taxableIncomeWithProperty = baseTaxableIncome + netRentalResult';
          withProperty' =
            calculateTaxScenario taxableIncomeWithProperty marginalTaxRate medicareLevyRate;
          taxBenefit' = calculateTaxBenefit (totalTax withoutProperty') (totalTax withProperty');
          afterTaxCashflow' = netCashflowPreTax' + taxBenefit'
      in \<lparr>withoutProperty = withoutProperty',
          withProperty = withProperty',
          taxBenefit = taxBenefit',
          afterTaxCashflow = afterTaxCashflow'\<rparr>)"

subsection \<open>Rental income and cashflow calculations\<close>

definition calculateGrossRent :: "real \<Rightarrow> real \<Rightarrow> real \<Rightarrow> real" where
  "calculateGrossRent weeklyRent' vacancyWeeks ownershipPct =
     (let rentableWeeks = WEEKS_PER_YEAR - vacancyWeeks
      in rentableWeeks * weeklyRent' * ownershipPct)"

definition calculateInterestExpense :: "real \<Rightarrow> real \<Rightarrow> real \<Rightarrow> real" where
  "calculateInterestExpense loanAmount interestRate ownershipPct =
     loanAmount * interestRate * ownershipPct"

definition calculateTotalOperatingExpenses :: "OperatingExpensesInputs \<Rightarrow> real \<Rightarrow> real" where
  "calculateTotalOperatingExpenses expenses ownershipPct =
     (let total =
            propertyManagement expenses +
            councilRates expenses +
            waterRates expenses +
            insurance expenses +
            repairsMaintenance expenses +
            bodyCorporate expenses +
            otherExpenses expenses
      in total * ownershipPct)"

definition calculateNetCashflowPreTax :: "real \<Rightarrow> real \<Rightarrow> real \<Rightarrow> real" where
  "calculateNetCashflowPreTax grossRent totalExpenses interestExpense' =
     grossRent - totalExpenses - interestExpense'"

definition calculateCashflowResults ::
  "RentalIncomeInputs \<Rightarrow> OperatingExpensesInputs \<Rightarrow> real \<Rightarrow> real \<Rightarrow> real \<Rightarrow> CashflowResults" where
  "calculateCashflowResults rentalIncome operatingExpenses loanAmount interestRate ownershipPct =
     (let grossRentalIncome' =
            calculateGrossRent (weeklyRent rentalIncome) (vacancyWeeksPerYear rentalIncome)
              ownershipPct;
          totalOperatingExpenses' =
            calculateTotalOperatingExpenses operatingExpenses ownershipPct;
          interestExpense' = calculateInterestExpense loanAmount interestRate ownershipPct;
          netCashflowPreTax' =
            calculateNetCashflowPreTax grossRentalIncome' totalOperatingExpenses' interestExpense'
      in \<lparr>grossRentalIncome = grossRentalIncome',
          totalOperatingExpenses = totalOperatingExpenses',
          interestExpense = interestExpense',
          CashflowResults.netCashflowPreTax = netCashflowPreTax'\<rparr>)"

subsection \<open>Depreciation calculations\<close>

definition calculateCapitalWorksDeduction :: "real \<Rightarrow> real \<Rightarrow> real" where
  "calculateCapitalWorksDeduction constructionValue' ownershipPct =
     constructionValue' * CAPITAL_WORKS_RATE * ownershipPct"

definition calculatePlantEquipmentDeduction :: "real \<Rightarrow> real \<Rightarrow> real" where
  "calculatePlantEquipmentDeduction annualEstimate ownershipPct =
     annualEstimate * ownershipPct"

definition calculateTotalDepreciation :: "real \<Rightarrow> real \<Rightarrow> real" where
  "calculateTotalDepreciation capitalWorks plantEquipment = capitalWorks + plantEquipment"

definition calculateDepreciationResults ::
  "DepreciationInputs \<Rightarrow> real \<Rightarrow> DepreciationResults" where
  "calculateDepreciationResults depreciation ownershipPct =
     (let capitalWorksDeduction' =
            calculateCapitalWorksDeduction (constructionValue depreciation) ownershipPct;
          plantEquipmentDeduction' =
            calculatePlantEquipmentDeduction (plantEquipmentAnnual depreciation) ownershipPct;
          totalDepreciation' =
            calculateTotalDepreciation capitalWorksDeduction' plantEquipmentDeduction'
      in \<lparr>capitalWorksDeduction = capitalWorksDeduction',
          plantEquipmentDeduction = plantEquipmentDeduction',
          DepreciationResults.totalDepreciation = totalDepreciation'\<rparr>)"

subsection \<open>Loan calculations\<close>

text \<open>
  \<open>Math.pow\<close> at a positive base is the real power, for any real exponent. The only
  call site passes the base \<open>1 + monthlyRate\<close> with a positive monthly rate; other bases
  are not reached.
\<close>

definition Math_pow :: "real \<Rightarrow> real \<Rightarrow> real" where
  "Math_pow x y = x powr y"

definition calculateMonthlyPIRepayment :: "real \<Rightarrow> real \<Rightarrow> real \<Rightarrow> real" where
  "calculateMonthlyPIRepayment loanAmount annualInterestRate loanTermYears =
     (if loanAmount \<le> 0 \<or> loanTermYears \<le> 0 then 0
      else if annualInterestRate \<le> 0 then loanAmount / (loanTermYears * 12)
      else
        let monthlyRate = annualInterestRate / 12;
            numberOfPayments = loanTermYears * 12;
            factor = Math_pow (1 + monthlyRate) numberOfPayments;
            monthlyPayment = loanAmount * (monthlyRate * factor) / (factor - 1)
        in monthlyPayment)"






record AmortizationMilestone =
  year :: int
  principalPaid :: real
  interestPaid :: real
  remainingBalance :: real

text \<open>The mutable locals of the schedule loop, threaded through its iterations.\<close>

record schedule_state =
  balance :: real
  totalPrincipalPaid :: real
  totalInterestPaid :: real
  currentMilestoneIndex :: nat
  milestones :: "AmortizationMilestone list"

text \<open>
  The \<open>for\<close> loop of \<open>calculateAmortizationMilestones\<close>, entered at \<open>month\<close>. The read
  \<open>milestoneYears[currentMilestoneIndex]\<close> is in range: the loop condition has checked
  \<open>currentMilestoneIndex < milestoneYears.length\<close>.
\<close>

function schedule_loop ::
  "real \<Rightarrow> real \<Rightarrow> real \<Rightarrow> int list \<Rightarrow> int \<Rightarrow> schedule_state \<Rightarrow> schedule_state" where
  "schedule_loop monthlyRate monthlyPayment loanTermYears milestoneYears month s =
     (if real_of_int month \<le> loanTermYears * 12 \<and>
         currentMilestoneIndex s < length milestoneYears then
        let interestPayment = balance s * monthlyRate;
            principalPayment = monthlyPayment - interestPayment;
            s1 = s\<lparr>balance := balance s - principalPayment,
                   totalPrincipalPaid := totalPrincipalPaid s + principalPayment,
                   totalInterestPaid := totalInterestPaid s + interestPayment\<rparr>;
            s2 = (if month = milestoneYears ! currentMilestoneIndex s1 * 12 then
                    s1\<lparr>milestones := milestones s1 @
                           [\<lparr>year = milestoneYears ! currentMilestoneIndex s1,
                             principalPaid = totalPrincipalPaid s1,
                             interestPaid = totalInterestPaid s1,
                             remainingBalance = max 0 (balance s1)\<rparr>],
                        currentMilestoneIndex := currentMilestoneIndex s1 + 1\<rparr>
                  else s1)
        in schedule_loop monthlyRate monthlyPayment loanTermYears milestoneYears (month + 1) s2
      else s)"
  by pat_completeness auto
termination
  by (relation "measure (\<lambda>(r, p, t, ys, m, s). nat (\<lfloor>t * 12\<rfloor> + 1 - m))")
    (auto simp: le_floor_iff)

declare schedule_loop.simps [simp del]

definition calculateAmortizationMilestones ::
  "real \<Rightarrow> real \<Rightarrow> real \<Rightarrow> AmortizationMilestone list" where
  "calculateAmortizationMilestones loanAmount annualInterestRate loanTermYears =
     (if loanAmount \<le> 0 \<or> annualInterestRate \<le> 0 \<or> loanTermYears \<le> 0 then []
      else
        let monthlyRate = annualInterestRate / 12;
            monthlyPayment =
              calculateMonthlyPIRepayment loanAmount annualInterestRate loanTermYears;
            milestoneYears =
              filter (\<lambda>y. real_of_int y \<le> loanTermYears) [1, 5, 10, 15, 20, 25, 30]
        in milestones
             (schedule_loop monthlyRate monthlyPayment loanTermYears milestoneYears 1
                \<lparr>balance = loanAmount,
                 totalPrincipalPaid = 0,
                 totalInterestPaid = 0,
                 currentMilestoneIndex = 0,
                 milestones = []\<rparr>))"

subsection \<open>The milestone schedule as the specification words it\<close>

text \<open>
  The specification describes the schedule as a walk, month by month, over a declining
  balance: the interest of a month is the balance times the monthly rate, the principal of
  the month is the payment minus that interest, the balance goes down by the principal, and
  running totals of principal and interest are kept. A milestone for year \<open>y\<close> is the
  snapshot of year, cumulative principal, cumulative interest and the balance floored at 0,
  taken after month \<open>y * 12\<close>. The definitions below follow those words, independently of
  the loop above; the loop is compared with them.
\<close>

fun spec_declining_balance_walk ::
  "real \<Rightarrow> real \<Rightarrow> nat \<Rightarrow> real \<times> real \<times> real \<Rightarrow> real \<times> real \<times> real" where
  "spec_declining_balance_walk monthlyRate payment 0 w = w"
| "spec_declining_balance_walk monthlyRate payment (Suc k) (bal, princ, intr) =
     spec_declining_balance_walk monthlyRate payment k
       (bal - (payment - bal * monthlyRate),
        princ + (payment - bal * monthlyRate),
        intr + bal * monthlyRate)"

definition spec_snapshot :: "int \<Rightarrow> real \<times> real \<times> real \<Rightarrow> AmortizationMilestone" where
  "spec_snapshot y w =
     (case w of (bal, princ, intr) \<Rightarrow>
        \<lparr>year = y, principalPaid = princ, interestPaid = intr,
         remainingBalance = max 0 bal\<rparr>)"

definition spec_milestone_at :: "real \<Rightarrow> real \<Rightarrow> real \<Rightarrow> int \<Rightarrow> AmortizationMilestone" where
  "spec_milestone_at loanAmount annualInterestRate loanTermYears y =
     spec_snapshot y
       (spec_declining_balance_walk (annualInterestRate / 12)
          (calculateMonthlyPIRepayment loanAmount annualInterestRate loanTermYears)
          (nat (y * 12)) (loanAmount, 0, 0))"

subsection \<open>Auxiliary notions for the proofs\<close>

text \<open>The three running figures of a loop state, as the triple the walk works on.\<close>

definition running :: "schedule_state \<Rightarrow> real \<times> real \<times> real" where
  "running s = (balance s, totalPrincipalPaid s, totalInterestPaid s)"

text \<open>
  The closed form of the balance outstanding after \<open>k\<close> months of an annuity loan over
  \<open>n = Y * 12\<close> months, with \<open>q = 1 + R / 12\<close>: \<open>L * (q ^ n - q ^ k) / (q ^ n - 1)\<close>.
\<close>

definition outstanding :: "real \<Rightarrow> real \<Rightarrow> real \<Rightarrow> nat \<Rightarrow> real" where
  "outstanding L R Y k =
     L * ((1 + R / 12) powr (Y * 12) - (1 + R / 12) ^ k) / ((1 + R / 12) powr (Y * 12) - 1)"

section \<open>Properties\<close>

subsection \<open>Unfolding sets\<close>

lemmas tax_defs = calculateTaxImpactResults_def calculateTaxScenario_def calculateTaxBenefit_def
  calculateTotalTax_def calculateIncomeTax_def calculateMedicareLevy_def

lemmas cashflow_defs = calculateCashflowResults_def calculateGrossRent_def
  calculateTotalOperatingExpenses_def calculateInterestExpense_def
  calculateNetCashflowPreTax_def WEEKS_PER_YEAR_def

subsection \<open>Tax calculator\<close>

text \<open>
  Claim C1. For every input tuple, \<open>calculateTaxImpactResults\<close> computes the
  without-property scenario at the base taxable income, the with-property scenario at the
  unfloored sum of base income and net rental result, the tax benefit as the difference of
  the two total taxes, and the after-tax cashflow as the pre-tax cashflow plus the tax
  benefit. At base income 100000, rental result -20800, cashflow -8300 and rates 0.37 and
  0.02 the figures are 39000, 79200, 30888, 8112 and -188.
\<close>

theorem calculateTaxImpactResults_scenarios:
  "withoutProperty (calculateTaxImpactResults b n c m l) = calculateTaxScenario b m l
   \<and> withProperty (calculateTaxImpactResults b n c m l) = calculateTaxScenario (b + n) m l
   \<and> taxableIncome (withProperty (calculateTaxImpactResults b n c m l)) = b + n
   \<and> taxBenefit (calculateTaxImpactResults b n c m l) =
       totalTax (withoutProperty (calculateTaxImpactResults b n c m l)) -
       totalTax (withProperty (calculateTaxImpactResults b n c m l))
   \<and> afterTaxCashflow (calculateTaxImpactResults b n c m l) =
       c + taxBenefit (calculateTaxImpactResults b n c m l)
   \<and> totalTax (withoutProperty (calculateTaxImpactResults 100000 (- 20800) (- 8300) 0.37 0.02)) = 39000
   \<and> taxableIncome (withProperty (calculateTaxImpactResults 100000 (- 20800) (- 8300) 0.37 0.02)) = 79200
   \<and> totalTax (withProperty (calculateTaxImpactResults 100000 (- 20800) (- 8300) 0.37 0.02)) = 30888
   \<and> taxBenefit (calculateTaxImpactResults 100000 (- 20800) (- 8300) 0.37 0.02) = 8112
   \<and> afterTaxCashflow (calculateTaxImpactResults 100000 (- 20800) (- 8300) 0.37 0.02) = - 188"
  by (simp add: tax_defs Let_def)

text \<open>
  Claim C2. Income tax is \<open>max 0 taxableIncome * rate\<close> and the Medicare levy mirrors it
  with its own rate; both are 0 for every negative taxable income, and the income tax on
  100000 at 0.37 is 37000.
\<close>

theorem calculateIncomeTax_floor_at_zero:
  "calculateIncomeTax t r = max 0 t * r
   \<and> calculateMedicareLevy t l = max 0 t * l
   \<and> (t < 0 \<longrightarrow> calculateIncomeTax t r = 0 \<and> calculateMedicareLevy t l = 0)
   \<and> calculateIncomeTax 100000 0.37 = 37000"
  by (simp add: calculateIncomeTax_def calculateMedicareLevy_def Let_def)

theorem calculateIncomeTax_floor_at_zero_witness:
  "(- 5000 :: real) < 0 \<and> calculateIncomeTax (- 5000) 0.37 = 0 \<and> calculateMedicareLevy (- 5000) 0.02 = 0"
  using calculateIncomeTax_floor_at_zero [of "- 5000" "0.37" "0.02"] by simp

text \<open>
  Claim C9. Under non-negative rates the tax benefit has the sign opposite to the net rental
  result: a loss (or zero) gives a non-negative benefit, a profit (or zero) a non-positive
  one.
\<close>

theorem taxBenefit_sign:
  assumes "0 \<le> m" and "0 \<le> l"
  shows "(n \<le> 0 \<longrightarrow> 0 \<le> taxBenefit (calculateTaxImpactResults b n c m l))
       \<and> (0 \<le> n \<longrightarrow> taxBenefit (calculateTaxImpactResults b n c m l) \<le> 0)"
proof -
  have rate: "0 \<le> m + l" using assms by simp
  have eq: "taxBenefit (calculateTaxImpactResults b n c m l) = (max 0 b - max 0 (b + n)) * (m + l)"
    by (simp add: tax_defs Let_def algebra_simps)
  show ?thesis
  proof (intro conjI impI)
    assume "n \<le> 0"
    then have "0 \<le> max 0 b - max 0 (b + n)" by simp
    then show "0 \<le> taxBenefit (calculateTaxImpactResults b n c m l)"
      unfolding eq using rate by (rule mult_nonneg_nonneg)
  next
    assume "0 \<le> n"
    then have "max 0 b - max 0 (b + n) \<le> 0" by simp
    then show "taxBenefit (calculateTaxImpactResults b n c m l) \<le> 0"
      unfolding eq using rate by (rule mult_nonpos_nonneg)
  qed
qed

theorem taxBenefit_sign_witness:
  "(0::real) \<le> 0.37 \<and> (0::real) \<le> 0.02
   \<and> (- 20800 :: real) \<le> 0 \<and> 0 \<le> taxBenefit (calculateTaxImpactResults 100000 (- 20800) (- 8300) 0.37 0.02)
   \<and> (0::real) \<le> 5000 \<and> taxBenefit (calculateTaxImpactResults 100000 5000 9000 0.37 0.02) \<le> 0"
  using taxBenefit_sign [of "0.37" "0.02" "- 20800" 100000 "- 8300"] taxBenefit_sign [of "0.37" "0.02" 5000 100000 9000]
  by simp

text \<open>
  Claim C6. The net rental result is pre-tax cashflow minus total depreciation, the property
  is negatively geared exactly when that result is below zero (so not at zero), and the
  cashflow and depreciation fields are copied from the inputs.
\<close>

theorem calculateRentalPLResults_gearing:
  "netRentalResult (calculateRentalPLResults cf dp) =
     CashflowResults.netCashflowPreTax cf - DepreciationResults.totalDepreciation dp
   \<and> isNegativelyGeared (calculateRentalPLResults cf dp) =
       (netRentalResult (calculateRentalPLResults cf dp) < 0)
   \<and> (netRentalResult (calculateRentalPLResults cf dp) = 0 \<longrightarrow>
        \<not> isNegativelyGeared (calculateRentalPLResults cf dp))
   \<and> RentalPLResults.netCashflowPreTax (calculateRentalPLResults cf dp) =
       CashflowResults.netCashflowPreTax cf
   \<and> RentalPLResults.totalDepreciation (calculateRentalPLResults cf dp) =
       DepreciationResults.totalDepreciation dp"
  by (simp add: calculateRentalPLResults_def calculateNetRentalResult_def Let_def)

theorem calculateRentalPLResults_gearing_witness:
  "netRentalResult (calculateRentalPLResults
      \<lparr>grossRentalIncome = 27500, totalOperatingExpenses = 7000, interestExpense = 8000,
       CashflowResults.netCashflowPreTax = 12500\<rparr>
      \<lparr>capitalWorksDeduction = 7500, plantEquipmentDeduction = 5000,
       DepreciationResults.totalDepreciation = 12500\<rparr>) = 0
   \<and> \<not> isNegativelyGeared (calculateRentalPLResults
      \<lparr>grossRentalIncome = 27500, totalOperatingExpenses = 7000, interestExpense = 8000,
       CashflowResults.netCashflowPreTax = 12500\<rparr>
      \<lparr>capitalWorksDeduction = 7500, plantEquipmentDeduction = 5000,
       DepreciationResults.totalDepreciation = 12500\<rparr>)"
  using calculateRentalPLResults_gearing [of "\<lparr>grossRentalIncome = 27500, totalOperatingExpenses = 7000, interestExpense = 8000,
       CashflowResults.netCashflowPreTax = 12500\<rparr>"
      "\<lparr>capitalWorksDeduction = 7500, plantEquipmentDeduction = 5000,
       DepreciationResults.totalDepreciation = 12500\<rparr>"]
  by simp

subsection \<open>Cashflow and depreciation calculators\<close>

text \<open>
  Claim C5. Gross rent is \<open>(52 - vacancyWeeks) * weeklyRent * ownershipPct\<close> with no
  clamping, so more than 52 vacancy weeks at positive rent and ownership give a negative
  gross rent; the net pre-tax cashflow of the aggregate result is gross rent minus operating
  expenses minus interest, with no floor (it is -8300 on the sample inputs).
\<close>

theorem calculateGrossRent_unclamped:
  "calculateGrossRent w v p = (52 - v) * w * p
   \<and> (52 < v \<and> 0 < w \<and> 0 < p \<longrightarrow> calculateGrossRent w v p < 0)
   \<and> CashflowResults.netCashflowPreTax (calculateCashflowResults ri oe la ir p) =
       grossRentalIncome (calculateCashflowResults ri oe la ir p)
       - totalOperatingExpenses (calculateCashflowResults ri oe la ir p)
       - interestExpense (calculateCashflowResults ri oe la ir p)
   \<and> CashflowResults.netCashflowPreTax
        (calculateCashflowResults
           \<lparr>weeklyRent = 550, vacancyWeeksPerYear = 2\<rparr>
           \<lparr>propertyManagement = 2000, councilRates = 1800, waterRates = 800,
            insurance = 1200, repairsMaintenance = 1000, bodyCorporate = 0,
            otherExpenses = 200, otherExpensesDescription = []\<rparr>
           480000 0.06 1) = - 8300"
proof (intro conjI impI)
  show "calculateGrossRent w v p = (52 - v) * w * p"
    by (simp add: calculateGrossRent_def WEEKS_PER_YEAR_def Let_def)
next
  assume h: "52 < v \<and> 0 < w \<and> 0 < p"
  then have "(52 - v) * w < 0" by (simp add: mult_neg_pos)
  with h have "(52 - v) * w * p < 0" by (simp add: mult_neg_pos)
  then show "calculateGrossRent w v p < 0"
    by (simp add: calculateGrossRent_def WEEKS_PER_YEAR_def Let_def)
qed (simp_all add: cashflow_defs Let_def)

theorem calculateGrossRent_unclamped_witness:
  "(52::real) < 60 \<and> (0::real) < 550 \<and> (0::real) < 1 \<and> calculateGrossRent 550 60 1 < 0"
  using calculateGrossRent_unclamped [of 550 60 1] by simp

text \<open>
  Claim C8. Every calculator that takes an ownership share (gross rent, operating expenses,
  interest expense, capital works, plant and equipment) is linear in it: the result at share
  \<open>p\<close> is \<open>p\<close> times the result at share 1. This holds for every real \<open>p\<close>, in
  particular on the interval from 0 to 1.
\<close>

theorem ownership_scaling_linear:
  "calculateGrossRent w v p = p * calculateGrossRent w v 1
   \<and> calculateTotalOperatingExpenses oe p = p * calculateTotalOperatingExpenses oe 1
   \<and> calculateInterestExpense la ir p = p * calculateInterestExpense la ir 1
   \<and> calculateCapitalWorksDeduction cv p = p * calculateCapitalWorksDeduction cv 1
   \<and> calculatePlantEquipmentDeduction ae p = p * calculatePlantEquipmentDeduction ae 1"
  by (simp add: calculateGrossRent_def calculateTotalOperatingExpenses_def
      calculateInterestExpense_def calculateCapitalWorksDeduction_def
      calculatePlantEquipmentDeduction_def Let_def mult.commute)

subsection \<open>Loan calculator\<close>

text \<open>
  Claim C7. The monthly P&I repayment is 0 when the loan amount or the term is not positive;
  otherwise it is the straight-line \<open>loanAmount / (loanTermYears * 12)\<close> at a rate that is
  not positive (so 480000 at rate 0 over 30 years gives 480000 / (30 * 12)), and the annuity
  formula with monthly rate \<open>r\<close> and \<open>n\<close> payments at a positive rate.
\<close>

theorem calculateMonthlyPIRepayment_branches:
  "(L \<le> 0 \<or> Y \<le> 0 \<longrightarrow> calculateMonthlyPIRepayment L R Y = 0)
   \<and> (0 < L \<and> 0 < Y \<and> R \<le> 0 \<longrightarrow>
        calculateMonthlyPIRepayment L R Y = L / (Y * 12))
   \<and> calculateMonthlyPIRepayment 480000 0 30 = 480000 / (30 * 12)
   \<and> (0 < L \<and> 0 < Y \<and> 0 < R \<longrightarrow>
        calculateMonthlyPIRepayment L R Y =
          L * (R / 12 * (1 + R / 12) powr (Y * 12)) / ((1 + R / 12) powr (Y * 12) - 1))"
  by (simp add: calculateMonthlyPIRepayment_def Math_pow_def Let_def)

theorem calculateMonthlyPIRepayment_branches_witness:
  "((- 1 :: real) \<le> 0 \<or> (30::real) \<le> 0) \<and> calculateMonthlyPIRepayment (- 1) 0.06 30 = 0
   \<and> ((480000 :: real) \<le> 0 \<or> (0::real) \<le> 0) \<and> calculateMonthlyPIRepayment 480000 0.06 0 = 0
   \<and> (0::real) < 480000 \<and> (0::real) < 30 \<and> (- 0.01 :: real) \<le> 0
   \<and> calculateMonthlyPIRepayment 480000 (- 0.01) 30 = 480000 / (30 * 12)
   \<and> (0::real) < 4095 \<and> (0::real) < 1 \<and> (0::real) < 12
   \<and> calculateMonthlyPIRepayment 4095 12 1 = 4096"
  using calculateMonthlyPIRepayment_branches [of "- 1" 30 "0.06"] calculateMonthlyPIRepayment_branches [of 480000 0 "0.06"] calculateMonthlyPIRepayment_branches [of 480000 30 "- 0.01"]
    calculateMonthlyPIRepayment_branches [of 4095 1 12]
  by simp

text \<open>
  Claim C10. The milestone schedule is empty whenever the loan amount, the rate or the term is
  not positive. At rate 0 with a positive amount and term it is empty although the monthly
  P&I repayment for the same input is the positive straight-line value.
\<close>

theorem calculateAmortizationMilestones_guard:
  "(L \<le> 0 \<or> R \<le> 0 \<or> Y \<le> 0 \<longrightarrow> calculateAmortizationMilestones L R Y = [])
   \<and> (0 < L \<and> 0 < Y \<longrightarrow>
        calculateAmortizationMilestones L 0 Y = []
        \<and> calculateMonthlyPIRepayment L 0 Y = L / (Y * 12)
        \<and> 0 < calculateMonthlyPIRepayment L 0 Y)"
  by (simp add: calculateAmortizationMilestones_def calculateMonthlyPIRepayment_def)

theorem calculateAmortizationMilestones_guard_witness:
  "((0::real) \<le> 0 \<or> (0.06::real) \<le> 0 \<or> (30::real) \<le> 0)
   \<and> calculateAmortizationMilestones 0 0.06 30 = []
   \<and> (0::real) < 480000 \<and> (0::real) < 30
   \<and> calculateAmortizationMilestones 480000 0 30 = []
   \<and> calculateMonthlyPIRepayment 480000 0 30 = 480000 / (30 * 12)
   \<and> 0 < calculateMonthlyPIRepayment 480000 0 30"
  using calculateAmortizationMilestones_guard [of 0 "0.06" 30] calculateAmortizationMilestones_guard [of 480000 0 30]
  by simp

subsection \<open>Interest-only against principal and interest\<close>

text \<open>
  Bernoulli's inequality at a real exponent of at least 1, from the natural-number case
  for the whole part of the exponent and the tangent bound of the exponential for the rest.
\<close>

lemma factor_gt_one:
  fixes r n :: real
  assumes "0 < r" and "0 < n"
  shows "1 < (1 + r) powr n"
  using assms by simp











subsection \<open>The amortization schedule in exact arithmetic\<close>

text \<open>One iteration of the loop, by the three ways it can go.\<close>

lemma walk_Suc_running:
  "spec_declining_balance_walk r M (Suc k) (running s) =
     spec_declining_balance_walk r M k
       (balance s - (M - balance s * r),
        totalPrincipalPaid s + (M - balance s * r),
        totalInterestPaid s + balance s * r)"
  by (simp add: running_def)

lemma schedule_loop_stop:
  "\<not> (real_of_int month \<le> Y * 12 \<and> currentMilestoneIndex s < length ys) \<Longrightarrow>
     schedule_loop r M Y ys month s = s"
  by (subst schedule_loop.simps) auto

lemma schedule_loop_skip:
  assumes "real_of_int month \<le> Y * 12" and "currentMilestoneIndex s < length ys"
    and "month \<noteq> ys ! currentMilestoneIndex s * 12"
  shows "schedule_loop r M Y ys month s =
     schedule_loop r M Y ys (month + 1)
       (s\<lparr>balance := balance s - (M - balance s * r),
          totalPrincipalPaid := totalPrincipalPaid s + (M - balance s * r),
          totalInterestPaid := totalInterestPaid s + balance s * r\<rparr>)"
  using assms by (subst schedule_loop.simps) (simp add: Let_def)

lemma schedule_loop_hit:
  assumes "real_of_int month \<le> Y * 12" and "currentMilestoneIndex s < length ys"
    and "month = ys ! currentMilestoneIndex s * 12"
  shows "schedule_loop r M Y ys month s =
     schedule_loop r M Y ys (month + 1)
       (s\<lparr>balance := balance s - (M - balance s * r),
          totalPrincipalPaid := totalPrincipalPaid s + (M - balance s * r),
          totalInterestPaid := totalInterestPaid s + balance s * r,
          milestones := milestones s @
            [\<lparr>year = ys ! currentMilestoneIndex s,
              principalPaid = totalPrincipalPaid s + (M - balance s * r),
              interestPaid = totalInterestPaid s + balance s * r,
              remainingBalance = max 0 (balance s - (M - balance s * r))\<rparr>],
          currentMilestoneIndex := currentMilestoneIndex s + 1\<rparr>)"
  using assms by (subst schedule_loop.simps) (simp add: Let_def)

lemma schedule_loop_milestones:
  assumes "sorted_wrt (<) (drop (currentMilestoneIndex s) ys)"
    and "\<forall>y \<in> set (drop (currentMilestoneIndex s) ys). month \<le> y * 12 \<and> real_of_int y \<le> Y"
  shows "milestones (schedule_loop r M Y ys month s) =
     milestones s @
     map (\<lambda>y. spec_snapshot y (spec_declining_balance_walk r M (nat (y * 12 + 1 - month)) (running s)))
       (drop (currentMilestoneIndex s) ys)"
  using assms
proof (induction r M Y ys month s rule: schedule_loop.induct)
  case (1 r M Y ys month s)
  let ?i = "currentMilestoneIndex s"
  show ?case
  proof (cases "real_of_int month \<le> Y * 12 \<and> ?i < length ys")
    case False
    have "drop ?i ys = []"
    proof (cases "?i < length ys")
      case True
      with False have late: "\<not> real_of_int month \<le> Y * 12" by simp
      from True have "ys ! ?i \<in> set (drop ?i ys)"
        by (metis Cons_nth_drop_Suc list.set_intros(1))
      with "1.prems"(2) have "month \<le> ys ! ?i * 12" and "real_of_int (ys ! ?i) \<le> Y"
        by blast+
      then have "real_of_int month \<le> real_of_int (ys ! ?i) * 12" and "real_of_int (ys ! ?i) * 12 \<le> Y * 12"
        by (simp_all flip: of_int_le_iff [where 'a = real])
      with late show ?thesis by linarith
    next
      case False
      then show ?thesis by simp
    qed
    with False show ?thesis by (simp add: schedule_loop_stop)
  next
    case True
    then have inb: "real_of_int month \<le> Y * 12" and idx: "?i < length ys" by simp_all
    let ?y0 = "ys ! ?i"
    have dr: "drop ?i ys = ?y0 # drop (Suc ?i) ys"
      using idx by (simp add: Cons_nth_drop_Suc)
    from "1.prems"(1) dr have srt: "sorted_wrt (<) (drop (Suc ?i) ys)"
      and above: "\<forall>y \<in> set (drop (Suc ?i) ys). ?y0 < y" by simp_all
    from "1.prems"(2) dr have y0: "month \<le> ?y0 * 12" "real_of_int ?y0 \<le> Y"
      and rest: "\<forall>y \<in> set (drop (Suc ?i) ys). month \<le> y * 12 \<and> real_of_int y \<le> Y"
      by simp_all
    note IH = "1.IH" [OF True refl refl refl refl]
    let ?b = "balance s - (M - balance s * r)"
    let ?p = "totalPrincipalPaid s + (M - balance s * r)"
    let ?t = "totalInterestPaid s + balance s * r"
    let ?s1 = "s\<lparr>balance := ?b, totalPrincipalPaid := ?p, totalInterestPaid := ?t\<rparr>"
    have walk1: "spec_declining_balance_walk r M (Suc k) (running s) =
        spec_declining_balance_walk r M k (?b, ?p, ?t)" for k
      by (rule walk_Suc_running)
    show ?thesis
    proof (cases "month = ?y0 * 12")
      case hit: True
      let ?m = "\<lparr>year = ?y0, principalPaid = ?p, interestPaid = ?t,
                 remainingBalance = max 0 ?b\<rparr>"
      let ?s2 = "?s1\<lparr>milestones := milestones s @ [?m],
                     currentMilestoneIndex := ?i + 1\<rparr>"
      have step: "schedule_loop r M Y ys month s = schedule_loop r M Y ys (month + 1) ?s2"
        using schedule_loop_hit [OF inb idx hit, of r M] by simp
      have rest': "\<forall>y \<in> set (drop (Suc ?i) ys). month + 1 \<le> y * 12 \<and> real_of_int y \<le> Y"
        using rest above hit by auto
      have run2: "running ?s2 = (?b, ?p, ?t)" by (simp add: running_def)
      have "milestones (schedule_loop r M Y ys (month + 1) ?s2) =
          milestones ?s2 @
          map (\<lambda>y. spec_snapshot y
                 (spec_declining_balance_walk r M (nat (y * 12 + 1 - (month + 1))) (running ?s2)))
            (drop (currentMilestoneIndex ?s2) ys)"
        using IH hit srt rest' by simp
      also have "\<dots> = (milestones s @ [?m]) @
          map (\<lambda>y. spec_snapshot y
                 (spec_declining_balance_walk r M (nat (y * 12 - month)) (?b, ?p, ?t)))
            (drop (Suc ?i) ys)"
        unfolding run2 by simp
      also have "map (\<lambda>y. spec_snapshot y
                 (spec_declining_balance_walk r M (nat (y * 12 - month)) (?b, ?p, ?t)))
            (drop (Suc ?i) ys) =
          map (\<lambda>y. spec_snapshot y
                 (spec_declining_balance_walk r M (nat (y * 12 + 1 - month)) (running s)))
            (drop (Suc ?i) ys)"
      proof (rule map_cong [OF refl])
        fix y assume "y \<in> set (drop (Suc ?i) ys)"
        with rest' have "month + 1 \<le> y * 12" by blast
        then have "nat (y * 12 + 1 - month) = Suc (nat (y * 12 - month))" by linarith
        then show "spec_snapshot y (spec_declining_balance_walk r M (nat (y * 12 - month)) (?b, ?p, ?t)) =
            spec_snapshot y (spec_declining_balance_walk r M (nat (y * 12 + 1 - month)) (running s))"
          by (simp only: walk1)
      qed
      finally have fin: "milestones (schedule_loop r M Y ys (month + 1) ?s2) =
          (milestones s @ [?m]) @
          map (\<lambda>y. spec_snapshot y
                 (spec_declining_balance_walk r M (nat (y * 12 + 1 - month)) (running s)))
            (drop (Suc ?i) ys)" .
      have first: "spec_snapshot ?y0
          (spec_declining_balance_walk r M (nat (?y0 * 12 + 1 - month)) (running s)) = ?m"
      proof -
        have "nat (?y0 * 12 + 1 - month) = Suc 0" using hit by simp
        then show ?thesis by (simp only: walk1) (simp add: spec_snapshot_def)
      qed
      show ?thesis unfolding step dr using fin by (simp add: first)
    next
      case miss: False
      have step: "schedule_loop r M Y ys month s = schedule_loop r M Y ys (month + 1) ?s1"
        by (rule schedule_loop_skip [OF inb idx miss])
      have all': "\<forall>y \<in> set (drop ?i ys). month + 1 \<le> y * 12 \<and> real_of_int y \<le> Y"
        using rest above y0 miss unfolding dr by auto
      have run1: "running ?s1 = (?b, ?p, ?t)" by (simp add: running_def)
      have "milestones (schedule_loop r M Y ys (month + 1) ?s1) =
          milestones ?s1 @
          map (\<lambda>y. spec_snapshot y
                 (spec_declining_balance_walk r M (nat (y * 12 + 1 - (month + 1))) (running ?s1)))
            (drop (currentMilestoneIndex ?s1) ys)"
        using IH miss "1.prems"(1) all' by simp
      also have "\<dots> = milestones s @
          map (\<lambda>y. spec_snapshot y
                 (spec_declining_balance_walk r M (nat (y * 12 - month)) (?b, ?p, ?t)))
            (drop ?i ys)"
        unfolding run1 by simp
      also have "map (\<lambda>y. spec_snapshot y
                 (spec_declining_balance_walk r M (nat (y * 12 - month)) (?b, ?p, ?t)))
            (drop ?i ys) =
          map (\<lambda>y. spec_snapshot y
                 (spec_declining_balance_walk r M (nat (y * 12 + 1 - month)) (running s)))
            (drop ?i ys)"
      proof (rule map_cong [OF refl])
        fix y assume "y \<in> set (drop ?i ys)"
        with all' have "month + 1 \<le> y * 12" by blast
        then have "nat (y * 12 + 1 - month) = Suc (nat (y * 12 - month))" by linarith
        then show "spec_snapshot y (spec_declining_balance_walk r M (nat (y * 12 - month)) (?b, ?p, ?t)) =
            spec_snapshot y (spec_declining_balance_walk r M (nat (y * 12 + 1 - month)) (running s))"
          by (simp only: walk1)
      qed
      finally show ?thesis unfolding step .
    qed
  qed
qed


lemma schedule_refines_walk:
  assumes "0 < L" and "0 < R" and "0 < Y"
  shows "calculateAmortizationMilestones L R Y =
     map (spec_milestone_at L R Y)
       (filter (\<lambda>y. real_of_int y \<le> Y) [1, 5, 10, 15, 20, 25, 30])"
proof -
  let ?ys = "filter (\<lambda>y. real_of_int y \<le> Y) [1, 5, 10, 15, 20, 25, 30 :: int]"
  let ?s0 = "\<lparr>balance = L, totalPrincipalPaid = 0, totalInterestPaid = 0,
              currentMilestoneIndex = 0, milestones = []\<rparr>"
  have srt: "sorted_wrt (<) (drop (currentMilestoneIndex ?s0) ?ys)"
    by (simp add: sorted_wrt_filter)
  have rng: "\<forall>y \<in> set (drop (currentMilestoneIndex ?s0) ?ys). 1 \<le> y * 12 \<and> real_of_int y \<le> Y"
    unfolding set_filter by auto
  have "milestones (schedule_loop (R / 12) (calculateMonthlyPIRepayment L R Y) Y ?ys 1 ?s0) =
      map (spec_milestone_at L R Y) ?ys"
    unfolding schedule_loop_milestones [OF srt rng]
    by (simp add: spec_milestone_at_def running_def)
  with assms show ?thesis
    by (simp add: calculateAmortizationMilestones_def Let_def)
qed

lemma walk_conserves_principal:
  "spec_declining_balance_walk r M k (b, p, i) = (b', p', i') \<Longrightarrow> p' + b' = p + b"
  by (induction k arbitrary: b p i) auto

lemma walk_balance:
  assumes "r \<noteq> 0"
  shows "fst (spec_declining_balance_walk r M k (b, p, i)) =
     b * (1 + r) ^ k - M * ((1 + r) ^ k - 1) / r"
proof (induction k arbitrary: b p i)
  case 0
  show ?case by simp
next
  case (Suc k)
  have "fst (spec_declining_balance_walk r M (Suc k) (b, p, i)) =
      (b - (M - b * r)) * (1 + r) ^ k - M * ((1 + r) ^ k - 1) / r"
    by (simp add: Suc.IH)
  also have "\<dots> = b * (1 + r) ^ Suc k - M * ((1 + r) ^ Suc k - 1) / r"
    using assms by (simp add: field_simps)
  finally show ?case .
qed

lemma annuity_balance:
  fixes L r f q :: real
  assumes "f - 1 \<noteq> 0" and "r \<noteq> 0"
  shows "L * q - L * (r * f) / (f - 1) * (q - 1) / r = L * (f - q) / (f - 1)"
  using assms by (simp add: field_simps)

lemma walk_outstanding:
  assumes L: "0 < L" and R: "0 < R" and Y: "0 < Y"
  shows "fst (spec_declining_balance_walk (R / 12) (calculateMonthlyPIRepayment L R Y) k (L, 0, 0)) =
     outstanding L R Y k"
proof -
  have r: "0 < R / 12" using R by simp
  have n: "0 < Y * 12" using Y by simp
  have f1: "(1 + R / 12) powr (Y * 12) - 1 \<noteq> 0"
    using factor_gt_one [OF r n] by simp
  have M: "calculateMonthlyPIRepayment L R Y =
      L * (R / 12 * (1 + R / 12) powr (Y * 12)) / ((1 + R / 12) powr (Y * 12) - 1)"
    using L R Y by (simp add: calculateMonthlyPIRepayment_def Math_pow_def Let_def)
  have r0: "R / 12 \<noteq> 0" using R by simp
  show ?thesis
    unfolding walk_balance [OF r0] M outstanding_def
    by (rule annuity_balance [OF f1 r0])
qed

lemma outstanding_nonneg:
  assumes "0 < L" and "0 < R" and "0 < Y" and "real k \<le> Y * 12"
  shows "0 \<le> outstanding L R Y k"
proof -
  have q: "1 < 1 + R / 12" using assms by simp
  have "(1 + R / 12) ^ k = (1 + R / 12) powr real k"
    using q by (simp add: powr_realpow)
  also have "\<dots> \<le> (1 + R / 12) powr (Y * 12)"
    using assms(4) q by simp
  finally have "(1 + R / 12) ^ k \<le> (1 + R / 12) powr (Y * 12)" .
  moreover have "0 < (1 + R / 12) powr (Y * 12) - 1"
    using factor_gt_one [of "R / 12" "Y * 12"] assms by simp
  ultimately show ?thesis
    using assms(1) by (simp add: outstanding_def)
qed

lemma outstanding_strict_antimono:
  assumes "0 < L" and "0 < R" and "0 < Y" and "j < k"
  shows "outstanding L R Y k < outstanding L R Y j"
proof -
  have q: "1 < 1 + R / 12" using assms by simp
  have lt: "(1 + R / 12) ^ j < (1 + R / 12) ^ k"
    using assms(4) q by (rule power_strict_increasing)
  have pos: "0 < (1 + R / 12) powr (Y * 12) - 1"
    using factor_gt_one [of "R / 12" "Y * 12"] assms by simp
  from lt have "(1 + R / 12) powr (Y * 12) - (1 + R / 12) ^ k
      < (1 + R / 12) powr (Y * 12) - (1 + R / 12) ^ j" by simp
  then have "L * ((1 + R / 12) powr (Y * 12) - (1 + R / 12) ^ k)
      < L * ((1 + R / 12) powr (Y * 12) - (1 + R / 12) ^ j)"
    using assms(1) by (simp only: mult_less_cancel_left_pos)
  then show ?thesis
    unfolding outstanding_def using pos by (simp only: divide_strict_right_mono)
qed

lemma milestone_at_fields:
  assumes "0 < L" and "0 < R" and "0 < Y"
  shows "year (spec_milestone_at L R Y y) = y"
    and "principalPaid (spec_milestone_at L R Y y) = L - outstanding L R Y (nat (y * 12))"
    and "remainingBalance (spec_milestone_at L R Y y) = max 0 (outstanding L R Y (nat (y * 12)))"
proof -
  obtain b p i where w: "spec_declining_balance_walk (R / 12) (calculateMonthlyPIRepayment L R Y)
      (nat (y * 12)) (L, 0, 0) = (b, p, i)"
    by (metis prod_cases3)
  from walk_outstanding [OF assms, of "nat (y * 12)"] w
  have b: "b = outstanding L R Y (nat (y * 12))" by simp
  from walk_conserves_principal [OF w] have p: "p = L - b" by simp
  show "year (spec_milestone_at L R Y y) = y"
    by (simp add: spec_milestone_at_def spec_snapshot_def w)
  show "principalPaid (spec_milestone_at L R Y y) = L - outstanding L R Y (nat (y * 12))"
    by (simp add: spec_milestone_at_def spec_snapshot_def w p b)
  show "remainingBalance (spec_milestone_at L R Y y) = max 0 (outstanding L R Y (nat (y * 12)))"
    by (simp add: spec_milestone_at_def spec_snapshot_def w b)
qed

lemma milestone_years_sorted:
  "sorted_wrt (<) (filter (\<lambda>y. real_of_int y \<le> Y) [1, 5, 10, 15, 20, 25, 30 :: int])"
  by (simp add: sorted_wrt_filter)

lemma milestone_years_range:
  "y \<in> set (filter (\<lambda>y. real_of_int y \<le> Y) [1, 5, 10, 15, 20, 25, 30 :: int]) \<Longrightarrow>
     1 \<le> y \<and> real_of_int y \<le> Y"
  unfolding set_filter by auto

text \<open>
  In exact arithmetic, for a positive loan amount, a positive rate and a term of at least one
  year, the schedule has one milestone for each of the years 1, 5, 10, 15, 20, 25, 30 within
  the term, in ascending order of year, each the snapshot after month \<open>year * 12\<close> of the
  month-by-month walk over the declining balance; the principal paid increases strictly,
  the remaining balance never increases, and principal paid plus remaining balance is the
  loan amount at every milestone. The program computes in IEEE doubles: there
  \<open>1 + monthlyRate\<close> is rounded before \<open>Math.pow\<close>, and at a rate small enough for it to
  round to 1 the repayment formula divides by \<open>factor - 1 = 0\<close>. That rounding is not part
  of this model, so the lemma speaks of the formulas the source writes, not of every run.
\<close>

lemma amortization_schedule_exact:
  assumes L: "0 < L" and R: "0 < R" and Y: "1 \<le> Y"
  shows "(let ms = calculateAmortizationMilestones L R Y in
      map year ms = filter (\<lambda>y. real_of_int y \<le> Y) [1, 5, 10, 15, 20, 25, 30]
    \<and> sorted_wrt (<) (map year ms)
    \<and> ms = map (spec_milestone_at L R Y) (map year ms)
    \<and> sorted_wrt (<) (map principalPaid ms)
    \<and> sorted_wrt (\<lambda>a b. b \<le> a) (map remainingBalance ms)
    \<and> (\<forall>m \<in> set ms. principalPaid m + remainingBalance m = L)
    \<and> ms \<noteq> []
    \<and> principalPaid (last ms) + remainingBalance (last ms) = L)"
proof -
  let ?ys = "filter (\<lambda>y. real_of_int y \<le> Y) [1, 5, 10, 15, 20, 25, 30 :: int]"
  let ?ms = "calculateAmortizationMilestones L R Y"
  from Y have Y0: "0 < Y" by simp
  note fields = milestone_at_fields [OF L R Y0]
  have ms: "?ms = map (spec_milestone_at L R Y) ?ys"
    by (rule schedule_refines_walk [OF L R Y0])
  have years: "map year ?ms = ?ys"
    unfolding ms by (simp add: fields(1) comp_def)
  have bal: "remainingBalance (spec_milestone_at L R Y y) = outstanding L R Y (nat (y * 12))"
    if "y \<in> set ?ys" for y
  proof -
    from milestone_years_range [OF that] have "1 \<le> y" and "real_of_int y \<le> Y" by simp_all
    then have "real (nat (y * 12)) \<le> Y * 12" by simp
    from outstanding_nonneg [OF L R Y0 this] show ?thesis by (simp add: fields(3))
  qed
  have down: "outstanding L R Y (nat (y * 12)) < outstanding L R Y (nat (x * 12))"
    if "x \<in> set ?ys" and "x < y" for x y
  proof -
    from milestone_years_range [OF that(1)] that(2) have "nat (x * 12) < nat (y * 12)" by linarith
    then show ?thesis by (rule outstanding_strict_antimono [OF L R Y0])
  qed
  have paid: "sorted_wrt (<) (map principalPaid ?ms)"
    unfolding ms sorted_wrt_map
  proof (rule sorted_wrt_mono_rel [OF _ milestone_years_sorted])
    fix x y assume "x \<in> set ?ys" and "y \<in> set ?ys" and "x < y"
    then show "principalPaid (spec_milestone_at L R Y x) < principalPaid (spec_milestone_at L R Y y)"
      using down [of x y] by (simp add: fields(2))
  qed
  have left: "sorted_wrt (\<lambda>a b. b \<le> a) (map remainingBalance ?ms)"
    unfolding ms sorted_wrt_map
  proof (rule sorted_wrt_mono_rel [OF _ milestone_years_sorted])
    fix x y assume "x \<in> set ?ys" and "y \<in> set ?ys" and "x < y"
    then show "remainingBalance (spec_milestone_at L R Y y) \<le> remainingBalance (spec_milestone_at L R Y x)"
      using down [of x y] by (simp add: bal)
  qed
  have total: "principalPaid m + remainingBalance m = L" if "m \<in> set ?ms" for m
  proof -
    from that obtain y where "y \<in> set ?ys" and "m = spec_milestone_at L R Y y"
      unfolding ms by auto
    then show ?thesis by (simp add: bal fields(2))
  qed
  have nonempty: "?ms \<noteq> []"
    unfolding ms using Y by simp
  then have "last ?ms \<in> set ?ms" by simp
  then have final: "principalPaid (last ?ms) + remainingBalance (last ?ms) = L"
    by (rule total)
  have snap: "?ms = map (spec_milestone_at L R Y) (map year ?ms)"
    unfolding years by (rule ms)
  have asc: "sorted_wrt (<) (map year ?ms)"
    unfolding years by (rule milestone_years_sorted)
  show ?thesis
    unfolding Let_def using years asc snap paid left total nonempty final by blast
qed

text \<open>
  A run on which every intermediate value is an integer, so that doubles compute it exactly:
  4095 borrowed at a monthly rate of 1 over one year, repaid at 4096 a month.
\<close>

lemma amortization_schedule_example:
  "calculateAmortizationMilestones 4095 12 1 =
     [\<lparr>year = 1, principalPaid = 4095, interestPaid = 45057, remainingBalance = 0\<rparr>]"
proof -
  have pay: "calculateMonthlyPIRepayment 4095 12 1 = 4096"
    by (simp add: calculateMonthlyPIRepayment_def Math_pow_def)
  have loop: "milestones (schedule_loop 1 4096 1 [1] 1
      \<lparr>balance = 4095, totalPrincipalPaid = 0, totalInterestPaid = 0,
       currentMilestoneIndex = 0, milestones = []\<rparr>) =
      [\<lparr>year = 1, principalPaid = 4095, interestPaid = 45057, remainingBalance = 0\<rparr>]"
    by (simp add: schedule_loop_skip schedule_loop_hit schedule_loop_stop)
  show ?thesis
    by (simp add: calculateAmortizationMilestones_def pay loop)
qed

end
